theory Spec2Isabelle
  imports Main "HOL-Library.Word"
begin

section \<open>JavaScript values\<close>

text \<open>
  A JavaScript string is a sequence of 16-bit code units. \<open>ascii\<close> writes an ASCII
  literal of the source (\<^verbatim>\<open>"latest"\<close>) as such a sequence.
\<close>

type_synonym jsstring = "16 word list"

definition ascii :: "string \<Rightarrow> jsstring" where
  "ascii s = map of_char s"

text \<open>
  The validators of \<^verbatim>\<open>normalize-options.ts\<close> take \<^verbatim>\<open>unknown\<close>: any value of the
  language. A number is its IEEE 754 double, as 64 bits; an object (a \<^verbatim>\<open>URL\<close>, a
  logger) and a symbol are opaque references.
\<close>

datatype jsval =
    JUndefined
  | JNull
  | JBoolean bool
  | JNumber "64 word"
  | JBigInt int
  | JString jsstring
  | JSymbol nat
  | JObject nat

text \<open>\<^verbatim>\<open>a ?? b\<close>: \<open>b\<close> when \<open>a\<close> is \<^verbatim>\<open>undefined\<close> or \<^verbatim>\<open>null\<close>, otherwise \<open>a\<close>.\<close>

definition nullish :: "jsval \<Rightarrow> jsval \<Rightarrow> jsval" where
  "nullish a b = (if a = JUndefined \<or> a = JNull then b else a)"

text \<open>
  \<^verbatim>\<open>Boolean(v)\<close>: false for \<^verbatim>\<open>undefined\<close>, \<^verbatim>\<open>null\<close>, \<^verbatim>\<open>false\<close>, the zeros, NaN,
  \<^verbatim>\<open>0n\<close> and the empty string. On the bits of a double, a zero has every bit but the
  sign clear, and a NaN has exponent \<open>0x7FF\<close> and a mantissa that is not zero.
\<close>

definition Boolean :: "jsval \<Rightarrow> bool" where
  "Boolean v =
     (case v of
        JUndefined \<Rightarrow> False
      | JNull \<Rightarrow> False
      | JBoolean b \<Rightarrow> b
      | JNumber d \<Rightarrow>
          (let m = take_bit 63 d in \<not> (m = 0 \<or> 0x7FF0000000000000 < m))
      | JBigInt n \<Rightarrow> n \<noteq> 0
      | JString s \<Rightarrow> s \<noteq> []
      | JSymbol _ \<Rightarrow> True
      | JObject _ \<Rightarrow> True)"

section \<open>Errors\<close>

text \<open>
  The error classes of \<^verbatim>\<open>errors.js\<close> that the normalizer throws, each with the value
  its constructor is given, and the \<^verbatim>\<open>URIError\<close> of \<^verbatim>\<open>encodeURIComponent\<close>.
\<close>

datatype error =
    InvalidTokenError
  | InvalidRegistryUrlError jsval
  | InvalidTagError jsval
  | InvalidAccessError jsval
  | InvalidStrategyError jsval
  | URIError

section \<open>String built-ins\<close>

text \<open>
  \<^verbatim>\<open>String.prototype.trim\<close> removes the leading and trailing code units that are
  WhiteSpace or LineTerminator in ECMAScript.
\<close>

definition isWhiteSpace :: "16 word \<Rightarrow> bool" where
  "isWhiteSpace c \<longleftrightarrow>
     c = 0x0009 \<or> c = 0x000A \<or> c = 0x000B \<or> c = 0x000C \<or> c = 0x000D \<or>
     c = 0x0020 \<or> c = 0x00A0 \<or> c = 0x1680 \<or> (0x2000 \<le> c \<and> c \<le> 0x200A) \<or>
     c = 0x2028 \<or> c = 0x2029 \<or> c = 0x202F \<or> c = 0x205F \<or> c = 0x3000 \<or>
     c = 0xFEFF"

definition trim :: "jsstring \<Rightarrow> jsstring" where
  "trim s = rev (dropWhile isWhiteSpace (rev (dropWhile isWhiteSpace s)))"

text \<open>
  \<^verbatim>\<open>encodeURIComponent\<close> keeps the code units of letters, digits and
  \<^verbatim>\<open>- _ . ! ~ * ' ( )\<close>; it writes every other code point as the \<^verbatim>\<open>%XX\<close> escapes of
  its UTF-8 octets, and throws \<^verbatim>\<open>URIError\<close> at a surrogate that has no partner.
\<close>

definition uriUnescaped :: "16 word \<Rightarrow> bool" where
  "uriUnescaped c \<longleftrightarrow>
     (0x41 \<le> c \<and> c \<le> 0x5A) \<or> (0x61 \<le> c \<and> c \<le> 0x7A) \<or> (0x30 \<le> c \<and> c \<le> 0x39) \<or>
     c = 0x2D \<or> c = 0x5F \<or> c = 0x2E \<or> c = 0x21 \<or> c = 0x7E \<or> c = 0x2A \<or>
     c = 0x27 \<or> c = 0x28 \<or> c = 0x29"

definition isLeadingSurrogate :: "16 word \<Rightarrow> bool" where
  "isLeadingSurrogate c \<longleftrightarrow> 0xD800 \<le> c \<and> c \<le> 0xDBFF"

definition isTrailingSurrogate :: "16 word \<Rightarrow> bool" where
  "isTrailingSurrogate c \<longleftrightarrow> 0xDC00 \<le> c \<and> c \<le> 0xDFFF"

definition surrogatePairToCodePoint :: "16 word \<Rightarrow> 16 word \<Rightarrow> nat" where
  "surrogatePairToCodePoint lead trail =
     (unat lead - 0xD800) * 0x400 + (unat trail - 0xDC00) + 0x10000"

definition utf8 :: "nat \<Rightarrow> nat list" where
  "utf8 cp =
     (if cp < 0x80 then [cp]
      else if cp < 0x800 then [0xC0 + cp div 0x40, 0x80 + cp mod 0x40]
      else if cp < 0x10000 then
        [0xE0 + cp div 0x1000, 0x80 + cp div 0x40 mod 0x40, 0x80 + cp mod 0x40]
      else
        [0xF0 + cp div 0x40000, 0x80 + cp div 0x1000 mod 0x40,
         0x80 + cp div 0x40 mod 0x40, 0x80 + cp mod 0x40])"

definition hexDigit :: "nat \<Rightarrow> 16 word" where
  "hexDigit n = (if n < 10 then 0x30 + of_nat n else 0x41 + of_nat (n - 10))"

definition percentEscape :: "nat \<Rightarrow> jsstring" where
  "percentEscape octet = [0x25, hexDigit (octet div 16), hexDigit (octet mod 16)]"

definition escapeCodePoint :: "nat \<Rightarrow> jsstring" where
  "escapeCodePoint cp = concat (map percentEscape (utf8 cp))"

fun encodeURIComponent :: "jsstring \<Rightarrow> error + jsstring" where
  "encodeURIComponent [] = Inr []"
| "encodeURIComponent (c # cs) =
     (if uriUnescaped c then
        (case encodeURIComponent cs of Inl e \<Rightarrow> Inl e | Inr r \<Rightarrow> Inr (c # r))
      else if isTrailingSurrogate c then Inl URIError
      else if isLeadingSurrogate c then
        (case cs of
           [] \<Rightarrow> Inl URIError
         | d # ds \<Rightarrow>
             if isTrailingSurrogate d then
               (case encodeURIComponent ds of
                  Inl e \<Rightarrow> Inl e
                | Inr r \<Rightarrow> Inr (escapeCodePoint (surrogatePairToCodePoint c d) @ r))
             else Inl URIError)
      else
        (case encodeURIComponent cs of
           Inl e \<Rightarrow> Inl e
         | Inr r \<Rightarrow> Inr (escapeCodePoint (unat c) @ r)))"

section \<open>Constants and records of the normalizer\<close>

definition REGISTRY_NPM :: jsstring where
  "REGISTRY_NPM = ascii ''https://registry.npmjs.org/''"

definition TAG_LATEST :: jsstring where
  "TAG_LATEST = ascii ''latest''"

text \<open>
  Modelled from the spec: the constants \<^verbatim>\<open>ACCESS_PUBLIC\<close>, \<^verbatim>\<open>ACCESS_RESTRICTED\<close>,
  \<^verbatim>\<open>STRATEGY_ALL\<close> and \<^verbatim>\<open>STRATEGY_UPGRADE\<close> are imported from \<^verbatim>\<open>options.js\<close>, which is
  not among the sources; the specification gives the two access values as \<^verbatim>\<open>public\<close>
  and \<^verbatim>\<open>restricted\<close> and the two strategy values as \<^verbatim>\<open>all\<close> and \<^verbatim>\<open>upgrade\<close>.
\<close>

definition ACCESS_PUBLIC :: jsstring where
  "ACCESS_PUBLIC = ascii ''public''"

definition ACCESS_RESTRICTED :: jsstring where
  "ACCESS_RESTRICTED = ascii ''restricted''"

definition STRATEGY_ALL :: jsstring where
  "STRATEGY_ALL = ascii ''all''"

definition STRATEGY_UPGRADE :: jsstring where
  "STRATEGY_UPGRADE = ascii ''upgrade''"

text \<open>
  Modelled from the spec: the types \<^verbatim>\<open>PackageManifest\<close> (of \<^verbatim>\<open>read-manifest.js\<close>) and
  \<^verbatim>\<open>Options\<close> (of \<^verbatim>\<open>options.js\<close>) are declared outside the sources. The manifest has
  an optional \<open>scope\<close> and an optional \<open>publishConfig\<close> with optional \<open>tag\<close>,
  \<open>registry\<close>, \<open>access\<close> and \<open>provenance\<close>; the options have the eleven fields
  below. Every field is a \<open>jsval\<close>, \<open>JUndefined\<close> when it is absent, since the
  normalizer narrows them at run time.
\<close>

record PackagePublishConfig =
  tag :: jsval
  registry :: jsval
  access :: jsval
  provenance :: jsval

record PackageManifest =
  scope :: jsval
  publishConfig :: "PackagePublishConfig option"

record Options =
  token :: jsval
  registry :: jsval
  tag :: jsval
  access :: jsval
  provenance :: jsval
  ignoreScripts :: jsval
  dryRun :: jsval
  strategy :: jsval
  logger :: jsval
  temporaryDirectory :: jsval
  forceCommandLineOptions :: jsval

record 'a ConfigValue =
  "value" :: 'a
  isDefault :: bool

text \<open>
  \<^verbatim>\<open>NormalizedOptions\<close>; \<open>'u\<close> is the platform's \<^verbatim>\<open>URL\<close> class. \<open>access\<close> holds
  \<^verbatim>\<open>Access | undefined\<close> and \<open>strategy\<close> a \<^verbatim>\<open>Strategy\<close>, both kept as the value
  the validator returned.
\<close>

record 'u NormalizedOptions =
  registry :: 'u
  token :: jsstring
  tag :: "jsstring ConfigValue"
  access :: "jsval ConfigValue"
  provenance :: "bool ConfigValue"
  ignoreScripts :: "bool ConfigValue"
  dryRun :: "bool ConfigValue"
  strategy :: "jsval ConfigValue"
  logger :: jsval
  temporaryDirectory :: jsval

text \<open>
  What the normalizer takes from the platform: the constructor \<^verbatim>\<open>new URL(value)\<close>
  (\<open>None\<close> when it throws) and \<^verbatim>\<open>os.tmpdir()\<close>.
\<close>

record 'u Platform =
  newURL :: "jsval \<Rightarrow> 'u option"
  os_tmpdir :: jsstring

section \<open>The validators\<close>

definition validateToken :: "jsval \<Rightarrow> error + jsstring" where
  "validateToken v =
     (case v of
        JString s \<Rightarrow> if length s > 0 then Inr s else Inl InvalidTokenError
      | _ \<Rightarrow> Inl InvalidTokenError)"

definition validateRegistry :: "'u Platform \<Rightarrow> jsval \<Rightarrow> error + 'u" where
  "validateRegistry env v =
     (case newURL env v of
        Some u \<Rightarrow> Inr u
      | None \<Rightarrow> Inl (InvalidRegistryUrlError v))"

definition validateTag :: "jsval \<Rightarrow> error + jsstring" where
  "validateTag v =
     (case v of
        JString s \<Rightarrow>
          (let trimmedValue = trim s in
           case encodeURIComponent trimmedValue of
             Inl e \<Rightarrow> Inl e
           | Inr encodedValue \<Rightarrow>
               if length trimmedValue > 0 \<and> trimmedValue = encodedValue then Inr s
               else Inl (InvalidTagError v))
      | _ \<Rightarrow> Inl (InvalidTagError v))"

definition validateAccess :: "jsval \<Rightarrow> error + jsval" where
  "validateAccess v =
     (if v = JUndefined \<or> v = JString ACCESS_PUBLIC \<or> v = JString ACCESS_RESTRICTED
      then Inr v
      else Inl (InvalidAccessError v))"

definition validateStrategy :: "jsval \<Rightarrow> error + jsval" where
  "validateStrategy v =
     (if v = JString STRATEGY_ALL \<or> v = JString STRATEGY_UPGRADE then Inr v
      else Inl (InvalidStrategyError v))"

text \<open>\<^verbatim>\<open>Boolean\<close> passed as a validator: it never throws.\<close>

definition validateBoolean :: "jsval \<Rightarrow> error + bool" where
  "validateBoolean v = Inr (Boolean v)"

section \<open>Assembly\<close>

definition setValue ::
  "jsval \<Rightarrow> jsval \<Rightarrow> (jsval \<Rightarrow> error + 'a) \<Rightarrow> error + 'a ConfigValue" where
  "setValue v defaultValue validate =
     (case validate (nullish v defaultValue) of
        Inl e \<Rightarrow> Inl e
      | Inr x \<Rightarrow> Inr \<lparr>value = x, isDefault = (v = JUndefined)\<rparr>)"

text \<open>\<^verbatim>\<open>manifest.publishConfig?.f\<close>: \<^verbatim>\<open>undefined\<close> when there is no \<open>publishConfig\<close>.\<close>

definition optionalChain ::
  "PackagePublishConfig option \<Rightarrow> (PackagePublishConfig \<Rightarrow> jsval) \<Rightarrow> jsval" where
  "optionalChain pc f = (case pc of None \<Rightarrow> JUndefined | Some c \<Rightarrow> f c)"

text \<open>
  The four local variables \<open>defaultTag\<close>, \<open>defaultRegistry\<close>, \<open>defaultAccess\<close> and
  \<open>defaultProvenance\<close> of \<open>normalizeOptions\<close>, as they stand when the \<^verbatim>\<open>return\<close>
  is reached: first the initial values, then the update from
  \<open>manifest.publishConfig\<close> under the guard
  \<^verbatim>\<open>options.forceCommandLineOptions == undefined || !options.forceCommandLineOptions\<close>.
\<close>

record Defaults =
  defaultTag :: jsval
  defaultRegistry :: jsval
  defaultAccess :: jsval
  defaultProvenance :: jsval

definition initialDefaults :: "PackageManifest \<Rightarrow> Defaults" where
  "initialDefaults manifest =
     \<lparr>defaultTag = JString TAG_LATEST,
      defaultRegistry = JString REGISTRY_NPM,
      defaultAccess = (if scope manifest = JUndefined then JString ACCESS_PUBLIC else JUndefined),
      defaultProvenance = JBoolean False\<rparr>"

definition resolveDefaults :: "PackageManifest \<Rightarrow> Options \<Rightarrow> Defaults" where
  "resolveDefaults manifest options =
     (let d = initialDefaults manifest; force = forceCommandLineOptions options in
      if (force = JUndefined \<or> force = JNull) \<or> \<not> Boolean force then
        \<lparr>defaultTag =
           nullish (optionalChain (publishConfig manifest) PackagePublishConfig.tag) (defaultTag d),
         defaultRegistry =
           nullish (optionalChain (publishConfig manifest) PackagePublishConfig.registry)
             (defaultRegistry d),
         defaultAccess =
           nullish (optionalChain (publishConfig manifest) PackagePublishConfig.access)
             (defaultAccess d),
         defaultProvenance =
           nullish (optionalChain (publishConfig manifest) PackagePublishConfig.provenance)
             (defaultProvenance d)\<rparr>
      else d)"

text \<open>A thrown error ends the evaluation: the rest runs only on a returned value.\<close>

definition orThrow :: "error + 'a \<Rightarrow> ('a \<Rightarrow> error + 'b) \<Rightarrow> error + 'b" where
  "orThrow m f = (case m of Inl e \<Rightarrow> Inl e | Inr x \<Rightarrow> f x)"

text \<open>
  The object literal of the \<^verbatim>\<open>return\<close> evaluates its properties in the order they are
  written, so the first validator that throws decides the error.
\<close>

definition normalizeOptions ::
  "'u Platform \<Rightarrow> PackageManifest \<Rightarrow> Options \<Rightarrow> error + 'u NormalizedOptions" where
  "normalizeOptions env manifest options =
     (let d = resolveDefaults manifest options in
      orThrow (validateToken (Options.token options)) (\<lambda>token'.
      orThrow (validateRegistry env (nullish (Options.registry options) (defaultRegistry d)))
        (\<lambda>registry'.
      orThrow (setValue (Options.tag options) (defaultTag d) validateTag) (\<lambda>tag'.
      orThrow (setValue (Options.access options) (defaultAccess d) validateAccess) (\<lambda>access'.
      orThrow (setValue (Options.provenance options) (defaultProvenance d) validateBoolean)
        (\<lambda>provenance'.
      orThrow (setValue (Options.ignoreScripts options) (JBoolean True) validateBoolean)
        (\<lambda>ignoreScripts'.
      orThrow (setValue (Options.dryRun options) (JBoolean False) validateBoolean) (\<lambda>dryRun'.
      orThrow (setValue (Options.strategy options) (JString STRATEGY_ALL) validateStrategy)
        (\<lambda>strategy'.
      Inr \<lparr>registry = registry',
           token = token',
           tag = tag',
           access = access',
           provenance = provenance',
           ignoreScripts = ignoreScripts',
           dryRun = dryRun',
           strategy = strategy',
           logger = Options.logger options,
           temporaryDirectory =
             nullish (Options.temporaryDirectory options) (JString (os_tmpdir env))\<rparr>)))))))))"

section \<open>Concrete inputs\<close>

text \<open>
  The options object \<^verbatim>\<open>{}\<close>, the manifest with neither \<open>scope\<close> nor
  \<open>publishConfig\<close>, and a platform for evaluating calls: its \<open>newURL\<close> accepts the
  strings that start with \<^verbatim>\<open>https://\<close> and keeps them as they are.
\<close>

definition noOptions :: Options where
  "noOptions =
     \<lparr>Options.token = JUndefined, Options.registry = JUndefined,
      Options.tag = JUndefined, Options.access = JUndefined,
      Options.provenance = JUndefined, Options.ignoreScripts = JUndefined,
      Options.dryRun = JUndefined, Options.strategy = JUndefined,
      Options.logger = JUndefined, Options.temporaryDirectory = JUndefined,
      Options.forceCommandLineOptions = JUndefined\<rparr>"

definition noManifest :: PackageManifest where
  "noManifest = \<lparr>scope = JUndefined, publishConfig = None\<rparr>"

definition examplePlatform :: "jsstring Platform" where
  "examplePlatform =
     \<lparr>newURL = (\<lambda>v. case v of
                       JString s \<Rightarrow> if take 8 s = ascii ''https://'' then Some s else None
                     | _ \<Rightarrow> None),
      os_tmpdir = ascii ''/tmp''\<rparr>"

text \<open>The options \<^verbatim>\<open>{token: "abc"}\<close>, and the same with the six tracked fields \<^verbatim>\<open>null\<close>.\<close>

definition abcOptions :: Options where
  "abcOptions = noOptions\<lparr>Options.token := JString (ascii ''abc'')\<rparr>"

definition nullOptions :: Options where
  "nullOptions =
     abcOptions\<lparr>Options.tag := JNull, Options.access := JNull, Options.provenance := JNull,
       Options.ignoreScripts := JNull, Options.dryRun := JNull, Options.strategy := JNull\<rparr>"

text \<open>
  The manifest \<^verbatim>\<open>{scope: "@acme"}\<close>, a scoped manifest with a full \<open>publishConfig\<close>, the
  options \<^verbatim>\<open>{token: "abc", forceCommandLineOptions: true}\<close> and the options
  \<^verbatim>\<open>{token: "abc", tag: "beta "}\<close>.
\<close>

definition acmeManifest :: PackageManifest where
  "acmeManifest = \<lparr>scope = JString (ascii ''@acme''), publishConfig = None\<rparr>"

definition nextManifest :: PackageManifest where
  "nextManifest =
     \<lparr>scope = JString (ascii ''@acme''),
      publishConfig = Some
        \<lparr>PackagePublishConfig.tag = JString (ascii ''next''),
         PackagePublishConfig.registry = JString (ascii ''https://npm.example.com/''),
         PackagePublishConfig.access = JString (ascii ''public''),
         PackagePublishConfig.provenance = JBoolean True\<rparr>\<rparr>"

text \<open>The manifest \<^verbatim>\<open>{scope: "@acme", publishConfig: {access: "public"}}\<close>.\<close>

definition acmePublicManifest :: PackageManifest where
  "acmePublicManifest =
     \<lparr>scope = JString (ascii ''@acme''),
      publishConfig = Some
        \<lparr>PackagePublishConfig.tag = JUndefined,
         PackagePublishConfig.registry = JUndefined,
         PackagePublishConfig.access = JString (ascii ''public''),
         PackagePublishConfig.provenance = JUndefined\<rparr>\<rparr>"

definition forcedOptions :: Options where
  "forcedOptions = abcOptions\<lparr>forceCommandLineOptions := JBoolean True\<rparr>"

definition betaOptions :: Options where
  "betaOptions = abcOptions\<lparr>Options.tag := JString (ascii ''beta '')\<rparr>"



section \<open>The first failure in declaration order\<close>




section \<open>Percent-encoding never shortens a string\<close>

lemma length_escapeCodePoint: "3 \<le> length (escapeCodePoint cp)"
  by (simp add: escapeCodePoint_def utf8_def percentEscape_def)

text \<open>The three ways in which encoding a non-empty string returns.\<close>

lemma encode_Cons_cases:
  assumes "encodeURIComponent (c # cs) = Inr e"
  obtains
    (keep) r where "uriUnescaped c" "encodeURIComponent cs = Inr r" "e = c # r"
  | (pair) d ds r where "\<not> uriUnescaped c" "cs = d # ds" "encodeURIComponent ds = Inr r"
      "e = escapeCodePoint (surrogatePairToCodePoint c d) @ r"
  | (single) r where "\<not> uriUnescaped c" "encodeURIComponent cs = Inr r"
      "e = escapeCodePoint (unat c) @ r"
proof (cases "uriUnescaped c")
  case True
  with assms keep show ?thesis
    by (simp split: sum.splits)
next
  case nu: False
  show ?thesis
  proof (cases "isTrailingSurrogate c")
    case True
    with nu assms show ?thesis by simp
  next
    case nt: False
    show ?thesis
    proof (cases "isLeadingSurrogate c")
      case True
      with nu nt assms pair show ?thesis
        by (simp split: list.splits if_splits sum.splits)
    next
      case False
      with nu nt assms single show ?thesis
        by (simp split: sum.splits)
    qed
  qed
qed

lemma encode_length:
  "encodeURIComponent s = Inr e \<Longrightarrow> length s \<le> length e"
proof (induction s arbitrary: e rule: length_induct)
  case (1 s)
  show ?case
  proof (cases s)
    case Nil
    then show ?thesis by simp
  next
    case (Cons c cs)
    with 1(2) have enc: "encodeURIComponent (c # cs) = Inr e" by simp
    from enc show ?thesis
    proof (cases rule: encode_Cons_cases)
      case (keep r)
      from 1(1) Cons keep(2) have "length cs \<le> length r" by simp
      with Cons keep(3) show ?thesis by simp
    next
      case (pair d ds r)
      from 1(1) Cons pair(2,3) have "length ds \<le> length r" by simp
      with Cons pair(2,4) length_escapeCodePoint [of "surrogatePairToCodePoint c d"]
      show ?thesis by simp
    next
      case (single r)
      from 1(1) Cons single(2) have "length cs \<le> length r" by simp
      with Cons single(3) length_escapeCodePoint [of "unat c"]
      show ?thesis by simp
    qed
  qed
qed

lemma encode_unescaped:
  "list_all uriUnescaped s \<Longrightarrow> encodeURIComponent s = Inr s"
  by (induction s) simp_all

lemma encode_longer:
  "encodeURIComponent s = Inr e \<Longrightarrow> \<not> list_all uriUnescaped s \<Longrightarrow> length s < length e"
proof (induction s arbitrary: e)
  case Nil
  then show ?case by simp
next
  case (Cons c cs)
  from Cons.prems(1) show ?case
  proof (cases rule: encode_Cons_cases)
    case (keep r)
    with Cons.prems(2) have "\<not> list_all uriUnescaped cs" by simp
    with Cons.IH keep(2) have "length cs < length r" by simp
    with keep(3) show ?thesis by simp
  next
    case (pair d ds r)
    from pair(3) have "length ds \<le> length r" by (rule encode_length)
    with pair(2,4) length_escapeCodePoint [of "surrogatePairToCodePoint c d"]
    show ?thesis by simp
  next
    case (single r)
    from single(2) have "length cs \<le> length r" by (rule encode_length)
    with single(3) length_escapeCodePoint [of "unat c"]
    show ?thesis by simp
  qed
qed

text \<open>
  A string is its own encoding exactly when each of its code units is one that
  \<open>encodeURIComponent\<close> keeps.
\<close>

lemma encode_fixed_iff:
  assumes "encodeURIComponent s = Inr e"
  shows "s = e \<longleftrightarrow> list_all uriUnescaped s"
proof
  assume "s = e"
  with assms encode_longer [of s e] show "list_all uriUnescaped s" by auto
next
  assume "list_all uriUnescaped s"
  with assms encode_unescaped [of s] show "s = e" by simp
qed

section \<open>Evaluation and inversion lemmas\<close>

lemmas string_defs =
  ascii_def REGISTRY_NPM_def TAG_LATEST_def ACCESS_PUBLIC_def ACCESS_RESTRICTED_def
  STRATEGY_ALL_def STRATEGY_UPGRADE_def

lemmas validator_defs =
  validateToken_def validateRegistry_def validateTag_def validateAccess_def
  validateStrategy_def validateBoolean_def Boolean_def trim_def isWhiteSpace_def
  uriUnescaped_def isLeadingSurrogate_def isTrailingSurrogate_def


lemmas normalize_defs =
  normalizeOptions_def resolveDefaults_def initialDefaults_def setValue_def orThrow_def
  nullish_def optionalChain_def noOptions_def noManifest_def examplePlatform_def

lemma orThrow_Inr_iff:
  "orThrow m f = Inr y \<longleftrightarrow> (\<exists>x. m = Inr x \<and> f x = Inr y)"
  by (cases m) (simp_all add: orThrow_def)

lemma setValue_Inr_iff:
  "setValue v d validate = Inr cv \<longleftrightarrow>
     validate (nullish v d) = Inr (value cv) \<and> isDefault cv = (v = JUndefined)"
  by (cases "validate (nullish v d)") (auto simp: setValue_def)

lemma setValue_Inl_iff:
  "setValue v d validate = Inl e \<longleftrightarrow> validate (nullish v d) = Inl e"
  by (cases "validate (nullish v d)") (auto simp: setValue_def)

text \<open>What a returned record says about each property of the object literal.\<close>

lemma normalizeOptions_Inr:
  assumes "normalizeOptions env manifest options = Inr r"
  shows "validateToken (Options.token options) = Inr (NormalizedOptions.token r)"
    and "validateRegistry env
           (nullish (Options.registry options) (defaultRegistry (resolveDefaults manifest options))) =
         Inr (NormalizedOptions.registry r)"
    and "setValue (Options.tag options) (defaultTag (resolveDefaults manifest options)) validateTag =
         Inr (NormalizedOptions.tag r)"
    and "setValue (Options.access options) (defaultAccess (resolveDefaults manifest options))
           validateAccess = Inr (NormalizedOptions.access r)"
    and "setValue (Options.provenance options)
           (defaultProvenance (resolveDefaults manifest options)) validateBoolean =
         Inr (NormalizedOptions.provenance r)"
    and "setValue (Options.ignoreScripts options) (JBoolean True) validateBoolean =
         Inr (NormalizedOptions.ignoreScripts r)"
    and "setValue (Options.dryRun options) (JBoolean False) validateBoolean =
         Inr (NormalizedOptions.dryRun r)"
    and "setValue (Options.strategy options) (JString STRATEGY_ALL) validateStrategy =
         Inr (NormalizedOptions.strategy r)"
    and "NormalizedOptions.logger r = Options.logger options"
    and "NormalizedOptions.temporaryDirectory r =
         nullish (Options.temporaryDirectory options) (JString (os_tmpdir env))"
  using assms
  by (auto simp: normalizeOptions_def Let_def orThrow_Inr_iff)

text \<open>Three calls on the example platform, evaluated.\<close>

lemma abc_call:
  "normalizeOptions examplePlatform noManifest abcOptions =
   Inr \<lparr>registry = REGISTRY_NPM, token = ascii ''abc'',
        tag = \<lparr>value = TAG_LATEST, isDefault = True\<rparr>,
        access = \<lparr>value = JString ACCESS_PUBLIC, isDefault = True\<rparr>,
        provenance = \<lparr>value = False, isDefault = True\<rparr>,
        ignoreScripts = \<lparr>value = True, isDefault = True\<rparr>,
        dryRun = \<lparr>value = False, isDefault = True\<rparr>,
        strategy = \<lparr>value = JString STRATEGY_ALL, isDefault = True\<rparr>,
        logger = JUndefined, temporaryDirectory = JString (ascii ''/tmp'')\<rparr>"
  by (simp add: normalize_defs abcOptions_def validator_defs string_defs)

lemma explicit_call:
  "normalizeOptions examplePlatform noManifest
     (abcOptions\<lparr>Options.tag := JString TAG_LATEST, Options.dryRun := JBoolean False\<rparr>) =
   Inr \<lparr>registry = REGISTRY_NPM, token = ascii ''abc'',
        tag = \<lparr>value = TAG_LATEST, isDefault = False\<rparr>,
        access = \<lparr>value = JString ACCESS_PUBLIC, isDefault = True\<rparr>,
        provenance = \<lparr>value = False, isDefault = True\<rparr>,
        ignoreScripts = \<lparr>value = True, isDefault = True\<rparr>,
        dryRun = \<lparr>value = False, isDefault = False\<rparr>,
        strategy = \<lparr>value = JString STRATEGY_ALL, isDefault = True\<rparr>,
        logger = JUndefined, temporaryDirectory = JString (ascii ''/tmp'')\<rparr>"
  by (simp add: normalize_defs abcOptions_def validator_defs string_defs)

lemma null_call:
  "normalizeOptions examplePlatform noManifest nullOptions =
   Inr \<lparr>registry = REGISTRY_NPM, token = ascii ''abc'',
        tag = \<lparr>value = TAG_LATEST, isDefault = False\<rparr>,
        access = \<lparr>value = JString ACCESS_PUBLIC, isDefault = False\<rparr>,
        provenance = \<lparr>value = False, isDefault = False\<rparr>,
        ignoreScripts = \<lparr>value = True, isDefault = False\<rparr>,
        dryRun = \<lparr>value = False, isDefault = False\<rparr>,
        strategy = \<lparr>value = JString STRATEGY_ALL, isDefault = False\<rparr>,
        logger = JUndefined, temporaryDirectory = JString (ascii ''/tmp'')\<rparr>"
  by (simp add: normalize_defs abcOptions_def nullOptions_def validator_defs string_defs)

section \<open>The tag validator\<close>

lemma validateTag_Inr:
  "validateTag x = Inr y \<Longrightarrow> x = JString y"
  by (cases x) (simp_all add: validateTag_def Let_def split: sum.splits if_splits)

lemma validateTag_beta:
  "validateTag (JString (ascii ''beta '')) = Inr (ascii ''beta '')"
  by (simp add: validator_defs string_defs)

lemma validateTag_not_string:
  "(\<forall>s. x \<noteq> JString s) \<Longrightarrow> validateTag x = Inl (InvalidTagError x)"
  by (cases x) (simp_all add: validateTag_def)

text \<open>Where the encoding of the trimmed string returns, the validator follows the spec.\<close>

lemma validateTag_encoded:
  assumes "encodeURIComponent (trim s) = Inr e"
  shows "validateTag (JString s) =
     (if trim s \<noteq> [] \<and> trim s = e then Inr s else Inl (InvalidTagError (JString s)))"
  using assms by (simp add: validateTag_def Let_def)

text \<open>
  The accepted values: the strings that, trimmed, are non-empty and made of the code
  units that \<open>encodeURIComponent\<close> keeps.
\<close>

lemma validateTag_accepts_iff:
  "(\<exists>y. validateTag x = Inr y) \<longleftrightarrow>
     (\<exists>s. x = JString s \<and> trim s \<noteq> [] \<and> list_all uriUnescaped (trim s))"
proof
  assume "\<exists>y. validateTag x = Inr y"
  then obtain y where ok: "validateTag x = Inr y" ..
  then have x: "x = JString y" by (rule validateTag_Inr)
  from ok x obtain e where e: "encodeURIComponent (trim y) = Inr e"
    by (cases "encodeURIComponent (trim y)") (simp_all add: validateTag_def)
  from ok x validateTag_encoded [OF e] have "trim y \<noteq> []" "trim y = e"
    by (simp_all split: if_splits)
  with e encode_fixed_iff [OF e] x
  show "\<exists>s. x = JString s \<and> trim s \<noteq> [] \<and> list_all uriUnescaped (trim s)" by simp
next
  assume "\<exists>s. x = JString s \<and> trim s \<noteq> [] \<and> list_all uriUnescaped (trim s)"
  then obtain s where "x = JString s" "trim s \<noteq> []" "list_all uriUnescaped (trim s)" by blast
  with encode_unescaped [of "trim s"] show "\<exists>y. validateTag x = Inr y"
    by (simp add: validateTag_def)
qed

section \<open>Forced command-line options\<close>

lemma acme_forced_call:
  "normalizeOptions examplePlatform acmeManifest forcedOptions =
   Inr \<lparr>registry = REGISTRY_NPM, token = ascii ''abc'',
        tag = \<lparr>value = TAG_LATEST, isDefault = True\<rparr>,
        access = \<lparr>value = JUndefined, isDefault = True\<rparr>,
        provenance = \<lparr>value = False, isDefault = True\<rparr>,
        ignoreScripts = \<lparr>value = True, isDefault = True\<rparr>,
        dryRun = \<lparr>value = False, isDefault = True\<rparr>,
        strategy = \<lparr>value = JString STRATEGY_ALL, isDefault = True\<rparr>,
        logger = JUndefined, temporaryDirectory = JString (ascii ''/tmp'')\<rparr>"
  by (simp add: normalize_defs abcOptions_def forcedOptions_def acmeManifest_def
        validator_defs string_defs)

lemma next_forced_call:
  "normalizeOptions examplePlatform nextManifest forcedOptions =
   Inr \<lparr>registry = REGISTRY_NPM, token = ascii ''abc'',
        tag = \<lparr>value = TAG_LATEST, isDefault = True\<rparr>,
        access = \<lparr>value = JUndefined, isDefault = True\<rparr>,
        provenance = \<lparr>value = False, isDefault = True\<rparr>,
        ignoreScripts = \<lparr>value = True, isDefault = True\<rparr>,
        dryRun = \<lparr>value = False, isDefault = True\<rparr>,
        strategy = \<lparr>value = JString STRATEGY_ALL, isDefault = True\<rparr>,
        logger = JUndefined, temporaryDirectory = JString (ascii ''/tmp'')\<rparr>"
  by (simp add: normalize_defs abcOptions_def forcedOptions_def nextManifest_def
        validator_defs string_defs)

lemma plain_forced_call:
  "normalizeOptions examplePlatform noManifest forcedOptions =
   Inr \<lparr>registry = REGISTRY_NPM, token = ascii ''abc'',
        tag = \<lparr>value = TAG_LATEST, isDefault = True\<rparr>,
        access = \<lparr>value = JString ACCESS_PUBLIC, isDefault = True\<rparr>,
        provenance = \<lparr>value = False, isDefault = True\<rparr>,
        ignoreScripts = \<lparr>value = True, isDefault = True\<rparr>,
        dryRun = \<lparr>value = False, isDefault = True\<rparr>,
        strategy = \<lparr>value = JString STRATEGY_ALL, isDefault = True\<rparr>,
        logger = JUndefined, temporaryDirectory = JString (ascii ''/tmp'')\<rparr>"
  by (simp add: normalize_defs abcOptions_def forcedOptions_def
        validator_defs string_defs)

lemma resolveDefaults_forced:
  assumes "Boolean (forceCommandLineOptions options)"
  shows "resolveDefaults manifest options = initialDefaults manifest"
proof -
  from assms have "forceCommandLineOptions options \<noteq> JUndefined"
    "forceCommandLineOptions options \<noteq> JNull"
    by (auto simp: Boolean_def)
  with assms show ?thesis by (simp add: resolveDefaults_def Let_def)
qed

section \<open>The options with the tag \<^verbatim>\<open>"beta "\<close>\<close>

lemma beta_call:
  "normalizeOptions examplePlatform noManifest betaOptions =
   Inr \<lparr>registry = REGISTRY_NPM, token = ascii ''abc'',
        tag = \<lparr>value = ascii ''beta '', isDefault = False\<rparr>,
        access = \<lparr>value = JString ACCESS_PUBLIC, isDefault = True\<rparr>,
        provenance = \<lparr>value = False, isDefault = True\<rparr>,
        ignoreScripts = \<lparr>value = True, isDefault = True\<rparr>,
        dryRun = \<lparr>value = False, isDefault = True\<rparr>,
        strategy = \<lparr>value = JString STRATEGY_ALL, isDefault = True\<rparr>,
        logger = JUndefined, temporaryDirectory = JString (ascii ''/tmp'')\<rparr>"
  by (simp add: normalize_defs abcOptions_def betaOptions_def validator_defs string_defs)

lemma orThrow_Inl_iff:
  "orThrow m f = Inl e \<longleftrightarrow> m = Inl e \<or> (\<exists>x. m = Inr x \<and> f x = Inl e)"
  by (cases m) (simp_all add: orThrow_def)

lemma betaOptions_fields:
  "Options.token betaOptions = JString (ascii ''abc'')"
  "Options.registry betaOptions = JUndefined"
  "Options.tag betaOptions = JString (ascii ''beta '')"
  "Options.access betaOptions = JUndefined"
  "Options.provenance betaOptions = JUndefined"
  "Options.ignoreScripts betaOptions = JUndefined"
  "Options.dryRun betaOptions = JUndefined"
  "Options.strategy betaOptions = JUndefined"
  by (simp_all add: betaOptions_def abcOptions_def noOptions_def)

lemma beta_errors:
  assumes "normalizeOptions env manifest betaOptions = Inl e"
  shows "(\<exists>v. e = InvalidRegistryUrlError v) \<or> (\<exists>v. e = InvalidAccessError v)"
proof -
  have tok: "validateToken (JString (ascii ''abc'')) = Inr (ascii ''abc'')"
    by (simp add: validateToken_def ascii_def)
  have tg: "setValue (JString (ascii ''beta '')) d validateTag =
      Inr \<lparr>value = ascii ''beta '', isDefault = False\<rparr>" for d
    by (simp add: setValue_def nullish_def validateTag_beta)
  have st: "setValue JUndefined (JString STRATEGY_ALL) validateStrategy =
      Inr \<lparr>value = JString STRATEGY_ALL, isDefault = True\<rparr>"
    by (simp add: setValue_def nullish_def validateStrategy_def)
  have bo: "setValue JUndefined d validateBoolean = Inr \<lparr>value = Boolean d, isDefault = True\<rparr>"
    for d
    by (simp add: setValue_def nullish_def validateBoolean_def)
  from assms show ?thesis
    unfolding normalizeOptions_def Let_def betaOptions_fields
    by (auto simp: orThrow_Inl_iff tok tg st bo setValue_Inl_iff validateRegistry_def
          validateAccess_def split: option.splits if_splits)
qed

section \<open>A scoped manifest that publishes with public access\<close>

lemma acme_public_call:
  "normalizeOptions examplePlatform acmePublicManifest abcOptions =
   Inr \<lparr>registry = REGISTRY_NPM, token = ascii ''abc'',
        tag = \<lparr>value = TAG_LATEST, isDefault = True\<rparr>,
        access = \<lparr>value = JString ACCESS_PUBLIC, isDefault = True\<rparr>,
        provenance = \<lparr>value = False, isDefault = True\<rparr>,
        ignoreScripts = \<lparr>value = True, isDefault = True\<rparr>,
        dryRun = \<lparr>value = False, isDefault = True\<rparr>,
        strategy = \<lparr>value = JString STRATEGY_ALL, isDefault = True\<rparr>,
        logger = JUndefined, temporaryDirectory = JString (ascii ''/tmp'')\<rparr>"
  by (simp add: normalize_defs abcOptions_def acmePublicManifest_def
        validator_defs string_defs)

section \<open>The claims\<close>

text \<open>
  C1, as the code has it. When \<open>forceCommandLineOptions\<close> is truthy, the defaults of
  \<open>tag\<close>, \<open>registry\<close> and \<open>provenance\<close> are the literals \<^verbatim>\<open>"latest"\<close>, the npm registry
  address and \<^verbatim>\<open>false\<close>, and the default of \<open>access\<close> is \<open>ACCESS_PUBLIC\<close> when
  \<open>manifest.scope\<close> is \<^verbatim>\<open>undefined\<close> and \<^verbatim>\<open>undefined\<close> otherwise. None of the four, and
  nothing of the result, depends on \<open>manifest.publishConfig\<close>. With no \<open>access\<close> in the
  options, the \<open>access\<close> of a returned record is that default, so it is the same for
  all manifests that agree on whether they have a scope.
\<close>

theorem forced_defaults:
  assumes "Boolean (forceCommandLineOptions options)"
  shows "resolveDefaults manifest options =
      \<lparr>defaultTag = JString TAG_LATEST, defaultRegistry = JString REGISTRY_NPM,
       defaultAccess =
         (if scope manifest = JUndefined then JString ACCESS_PUBLIC else JUndefined),
       defaultProvenance = JBoolean False\<rparr> \<and>
    normalizeOptions env (manifest\<lparr>publishConfig := pc\<rparr>) options =
      normalizeOptions env manifest options \<and>
    (Options.access options = JUndefined \<and> normalizeOptions env manifest options = Inr r \<longrightarrow>
       NormalizedOptions.access r =
         \<lparr>value = (if scope manifest = JUndefined then JString ACCESS_PUBLIC else JUndefined),
          isDefault = True\<rparr>)"
proof (intro conjI impI)
  show d: "resolveDefaults manifest options =
      \<lparr>defaultTag = JString TAG_LATEST, defaultRegistry = JString REGISTRY_NPM,
       defaultAccess =
         (if scope manifest = JUndefined then JString ACCESS_PUBLIC else JUndefined),
       defaultProvenance = JBoolean False\<rparr>"
    by (simp add: resolveDefaults_forced [OF assms] initialDefaults_def)
  have "resolveDefaults (manifest\<lparr>publishConfig := pc\<rparr>) options =
      resolveDefaults manifest options"
    by (simp add: resolveDefaults_forced [OF assms] initialDefaults_def)
  then show "normalizeOptions env (manifest\<lparr>publishConfig := pc\<rparr>) options =
      normalizeOptions env manifest options"
    by (simp add: normalizeOptions_def)
  assume "Options.access options = JUndefined \<and> normalizeOptions env manifest options = Inr r"
  then have u: "Options.access options = JUndefined"
    and ok: "normalizeOptions env manifest options = Inr r" by simp_all
  from normalizeOptions_Inr(4) [OF ok] u d
  show "NormalizedOptions.access r =
         \<lparr>value = (if scope manifest = JUndefined then JString ACCESS_PUBLIC else JUndefined),
          isDefault = True\<rparr>"
    by (auto simp: setValue_Inr_iff nullish_def validateAccess_def split: if_splits)
qed

theorem forced_defaults_witness:
  "Boolean (forceCommandLineOptions forcedOptions) \<and>
   Options.access forcedOptions = JUndefined \<and>
   resolveDefaults nextManifest forcedOptions =
     \<lparr>defaultTag = JString (ascii ''latest''),
      defaultRegistry = JString (ascii ''https://registry.npmjs.org/''),
      defaultAccess = JUndefined, defaultProvenance = JBoolean False\<rparr> \<and>
   normalizeOptions examplePlatform nextManifest forcedOptions =
     normalizeOptions examplePlatform acmeManifest forcedOptions \<and>
   (\<exists>r. normalizeOptions examplePlatform nextManifest forcedOptions = Inr r \<and>
      NormalizedOptions.tag r = \<lparr>value = ascii ''latest'', isDefault = True\<rparr> \<and>
      NormalizedOptions.access r = \<lparr>value = JUndefined, isDefault = True\<rparr>)"
proof -
  have f: "Boolean (forceCommandLineOptions forcedOptions)"
    by (simp add: forcedOptions_def Boolean_def)
  have a: "Options.access forcedOptions = JUndefined"
    by (simp add: forcedOptions_def abcOptions_def noOptions_def)
  have m: "nextManifest\<lparr>publishConfig := None\<rparr> = acmeManifest"
    "scope nextManifest \<noteq> JUndefined"
    by (simp_all add: nextManifest_def acmeManifest_def)
  from forced_defaults [OF f, of nextManifest examplePlatform None] f a m next_forced_call
  show ?thesis by (simp add: TAG_LATEST_def REGISTRY_NPM_def)
qed

text \<open>
  C1, as the specification words it, says that the four defaults and the resulting
  \<open>access\<close> do not depend on \<open>manifest.scope\<close> either. They do: the line
  \<^verbatim>\<open>let defaultAccess = manifest.scope === undefined ? ACCESS_PUBLIC : undefined\<close> runs
  before the guard. With \<^verbatim>\<open>{token: "abc", forceCommandLineOptions: true}\<close>, the manifest
  \<^verbatim>\<open>{scope: "@acme"}\<close> gives \<open>access.value\<close> \<^verbatim>\<open>undefined\<close> and the manifest without a
  scope gives \<^verbatim>\<open>"public"\<close>.
\<close>

theorem forced_defaults_counterexample:
  "Boolean (forceCommandLineOptions forcedOptions) \<and>
   Options.access forcedOptions = JUndefined \<and>
   defaultAccess (resolveDefaults acmeManifest forcedOptions) = JUndefined \<and>
   defaultAccess (resolveDefaults noManifest forcedOptions) = JString (ascii ''public'') \<and>
   defaultAccess (resolveDefaults acmeManifest forcedOptions) \<noteq>
     defaultAccess (resolveDefaults noManifest forcedOptions) \<and>
   normalizeOptions examplePlatform acmeManifest forcedOptions =
     Inr \<lparr>registry = REGISTRY_NPM, token = ascii ''abc'',
          tag = \<lparr>value = TAG_LATEST, isDefault = True\<rparr>,
          access = \<lparr>value = JUndefined, isDefault = True\<rparr>,
          provenance = \<lparr>value = False, isDefault = True\<rparr>,
          ignoreScripts = \<lparr>value = True, isDefault = True\<rparr>,
          dryRun = \<lparr>value = False, isDefault = True\<rparr>,
          strategy = \<lparr>value = JString STRATEGY_ALL, isDefault = True\<rparr>,
          logger = JUndefined, temporaryDirectory = JString (ascii ''/tmp'')\<rparr> \<and>
   normalizeOptions examplePlatform noManifest forcedOptions =
     Inr \<lparr>registry = REGISTRY_NPM, token = ascii ''abc'',
          tag = \<lparr>value = TAG_LATEST, isDefault = True\<rparr>,
          access = \<lparr>value = JString (ascii ''public''), isDefault = True\<rparr>,
          provenance = \<lparr>value = False, isDefault = True\<rparr>,
          ignoreScripts = \<lparr>value = True, isDefault = True\<rparr>,
          dryRun = \<lparr>value = False, isDefault = True\<rparr>,
          strategy = \<lparr>value = JString STRATEGY_ALL, isDefault = True\<rparr>,
          logger = JUndefined, temporaryDirectory = JString (ascii ''/tmp'')\<rparr>"
proof -
  have f: "Boolean (forceCommandLineOptions forcedOptions)"
    by (simp add: forcedOptions_def Boolean_def)
  have a: "Options.access forcedOptions = JUndefined"
    by (simp add: forcedOptions_def abcOptions_def noOptions_def)
  have d1: "defaultAccess (resolveDefaults acmeManifest forcedOptions) = JUndefined"
    by (simp add: resolveDefaults_forced [OF f] initialDefaults_def acmeManifest_def)
  have d2: "defaultAccess (resolveDefaults noManifest forcedOptions) = JString (ascii ''public'')"
    by (simp add: resolveDefaults_forced [OF f] initialDefaults_def noManifest_def
          ACCESS_PUBLIC_def)
  from f a d1 d2 acme_forced_call plain_forced_call show ?thesis
    by (simp add: ACCESS_PUBLIC_def)
qed

text \<open>
  C2, as the code has it. For the options \<^verbatim>\<open>{token: "abc", tag: "beta "}\<close> and any
  manifest, \<open>normalizeOptions\<close> does not throw \<open>InvalidTagError\<close>: the tag validator
  trims before it compares, \<^verbatim>\<open>"beta"\<close> is its own encoding, and the validator returns
  the untrimmed \<^verbatim>\<open>"beta "\<close>. A returned record has \<open>tag.value\<close> \<^verbatim>\<open>"beta "\<close> with
  \<open>isDefault\<close> false, and the call returns whenever the manifest has no
  \<open>publishConfig\<close> and the platform's \<^verbatim>\<open>URL\<close> accepts the npm registry address.
\<close>

theorem beta_tag_accepted:
  "validateTag (JString (ascii ''beta '')) = Inr (ascii ''beta '') \<and>
   normalizeOptions env manifest betaOptions \<noteq> Inl (InvalidTagError v) \<and>
   (normalizeOptions env manifest betaOptions = Inr r \<longrightarrow>
      NormalizedOptions.tag r = \<lparr>value = ascii ''beta '', isDefault = False\<rparr>) \<and>
   (newURL env (JString REGISTRY_NPM) = Some u \<and> publishConfig manifest = None \<longrightarrow>
      (\<exists>r'. normalizeOptions env manifest betaOptions = Inr r'))"
proof (intro conjI impI)
  show "validateTag (JString (ascii ''beta '')) = Inr (ascii ''beta '')"
    by (rule validateTag_beta)
  show "normalizeOptions env manifest betaOptions \<noteq> Inl (InvalidTagError v)"
    using beta_errors [of env manifest "InvalidTagError v"] by auto
  show "NormalizedOptions.tag r = \<lparr>value = ascii ''beta '', isDefault = False\<rparr>"
    if "normalizeOptions env manifest betaOptions = Inr r"
    using normalizeOptions_Inr(3) [OF that]
    by (simp add: setValue_Inr_iff betaOptions_fields nullish_def validateTag_beta)
  show "\<exists>r'. normalizeOptions env manifest betaOptions = Inr r'"
    if "newURL env (JString REGISTRY_NPM) = Some u \<and> publishConfig manifest = None"
    using that
    by (simp add: normalizeOptions_def resolveDefaults_def initialDefaults_def setValue_def
          orThrow_def nullish_def optionalChain_def noOptions_def abcOptions_def
          betaOptions_def validator_defs string_defs)
qed

theorem beta_tag_accepted_witness:
  "newURL examplePlatform (JString REGISTRY_NPM) = Some REGISTRY_NPM \<and>
   publishConfig noManifest = None \<and>
   (\<exists>r. normalizeOptions examplePlatform noManifest betaOptions = Inr r \<and>
      NormalizedOptions.tag r = \<lparr>value = ascii ''beta '', isDefault = False\<rparr>)"
proof -
  have h: "newURL examplePlatform (JString REGISTRY_NPM) = Some REGISTRY_NPM"
    "publishConfig noManifest = None"
    by (simp_all add: examplePlatform_def noManifest_def string_defs)
  from h beta_tag_accepted [of examplePlatform noManifest JUndefined _ REGISTRY_NPM]
  obtain r where r: "normalizeOptions examplePlatform noManifest betaOptions = Inr r"
    by blast
  from r beta_tag_accepted [of examplePlatform noManifest JUndefined r REGISTRY_NPM]
  have "NormalizedOptions.tag r = \<lparr>value = ascii ''beta '', isDefault = False\<rparr>"
    by blast
  with h r show ?thesis by blast
qed

text \<open>
  C2, as the specification words it, says that these options make \<open>normalizeOptions\<close>
  throw \<open>InvalidTagError\<close>. On the manifest without \<open>publishConfig\<close> the call returns.
\<close>

theorem beta_tag_counterexample:
  "normalizeOptions examplePlatform noManifest betaOptions =
   Inr \<lparr>registry = ascii ''https://registry.npmjs.org/'', token = ascii ''abc'',
        tag = \<lparr>value = ascii ''beta '', isDefault = False\<rparr>,
        access = \<lparr>value = JString (ascii ''public''), isDefault = True\<rparr>,
        provenance = \<lparr>value = False, isDefault = True\<rparr>,
        ignoreScripts = \<lparr>value = True, isDefault = True\<rparr>,
        dryRun = \<lparr>value = False, isDefault = True\<rparr>,
        strategy = \<lparr>value = JString (ascii ''all''), isDefault = True\<rparr>,
        logger = JUndefined, temporaryDirectory = JString (ascii ''/tmp'')\<rparr>"
  using beta_call by (simp add: REGISTRY_NPM_def ACCESS_PUBLIC_def STRATEGY_ALL_def)


text \<open>
  C3. The claim: the tag validator succeeds exactly on the strings whose trimmed form is
  non-empty and equal to its own percent-encoding, returns the untrimmed string, and
  signals \<open>InvalidTagError\<close> on every other input. The code does not do the last part
  on a string with a lone surrogate: \<^verbatim>\<open>"\uD800"\<close> makes \<open>encodeURIComponent\<close> throw,
  and the \<open>URIError\<close> leaves \<open>validateTag\<close> as it is (\<open>validateRegistry\<close>, beside it,
  catches what \<^verbatim>\<open>new URL\<close> throws and signals its own error).
\<close>

theorem validateTag_lone_surrogate:
  "validateTag (JString [0xD800]) = Inl URIError"
  by (simp add: validator_defs)

text \<open>
  C4. In the record a call returns, the \<open>isDefault\<close> flag of each of \<open>tag\<close>, \<open>access\<close>,
  \<open>provenance\<close>, \<open>ignoreScripts\<close>, \<open>dryRun\<close> and \<open>strategy\<close> is true exactly when the
  field of the options was \<^verbatim>\<open>undefined\<close>. The witness supplies a tag and a \<open>dryRun\<close>
  equal to their defaults: the flags are false all the same.
\<close>

theorem isDefault_iff_undefined:
  assumes "normalizeOptions env manifest options = Inr r"
  shows "(isDefault (NormalizedOptions.tag r) \<longleftrightarrow> Options.tag options = JUndefined) \<and>
    (isDefault (NormalizedOptions.access r) \<longleftrightarrow> Options.access options = JUndefined) \<and>
    (isDefault (NormalizedOptions.provenance r) \<longleftrightarrow> Options.provenance options = JUndefined) \<and>
    (isDefault (NormalizedOptions.ignoreScripts r) \<longleftrightarrow>
       Options.ignoreScripts options = JUndefined) \<and>
    (isDefault (NormalizedOptions.dryRun r) \<longleftrightarrow> Options.dryRun options = JUndefined) \<and>
    (isDefault (NormalizedOptions.strategy r) \<longleftrightarrow> Options.strategy options = JUndefined)"
  using normalizeOptions_Inr(3-8) [OF assms] by (simp add: setValue_Inr_iff)

theorem isDefault_iff_undefined_witness:
  "\<exists>r. normalizeOptions examplePlatform noManifest
          (abcOptions\<lparr>Options.tag := JString TAG_LATEST, Options.dryRun := JBoolean False\<rparr>) =
        Inr r \<and>
      value (NormalizedOptions.tag r) = TAG_LATEST \<and>
      \<not> isDefault (NormalizedOptions.tag r) \<and>
      isDefault (NormalizedOptions.access r) \<and>
      isDefault (NormalizedOptions.provenance r) \<and>
      isDefault (NormalizedOptions.ignoreScripts r) \<and>
      value (NormalizedOptions.dryRun r) = False \<and>
      \<not> isDefault (NormalizedOptions.dryRun r) \<and>
      isDefault (NormalizedOptions.strategy r)"
  using isDefault_iff_undefined [OF explicit_call] explicit_call
  by (simp add: abcOptions_def noOptions_def)




text \<open>
  C6, as the code has it. With \<open>forceCommandLineOptions\<close> not truthy, no \<open>access\<close> in
  the options and none in the manifest's \<open>publishConfig\<close>, the \<open>access\<close> of a returned
  record is decided by the manifest's \<open>scope\<close>, with \<open>isDefault\<close> true. For the options
  \<^verbatim>\<open>{token: "abc"}\<close> and a manifest that has a scope and no \<open>publishConfig\<close> (as
  \<^verbatim>\<open>{scope: "@acme"}\<close>) the call returns with \<open>access.value\<close> \<^verbatim>\<open>undefined\<close>; for a
  manifest with neither it returns with \<open>access.value\<close> \<^verbatim>\<open>"public"\<close>. The calls return
  on a platform whose \<^verbatim>\<open>URL\<close> accepts the npm registry address.
\<close>

theorem access_default_by_scope:
  "(\<not> Boolean (forceCommandLineOptions options) \<and> Options.access options = JUndefined \<and>
    (optionalChain (publishConfig manifest) PackagePublishConfig.access = JUndefined \<or>
     optionalChain (publishConfig manifest) PackagePublishConfig.access = JNull) \<and>
    normalizeOptions env manifest options = Inr r \<longrightarrow>
      NormalizedOptions.access r =
        \<lparr>value = (if scope manifest = JUndefined then JString ACCESS_PUBLIC else JUndefined),
         isDefault = True\<rparr>) \<and>
   (newURL env (JString REGISTRY_NPM) = Some u \<and> publishConfig scoped = None \<and>
    scope scoped \<noteq> JUndefined \<longrightarrow>
      (\<exists>r. normalizeOptions env scoped abcOptions = Inr r \<and>
         NormalizedOptions.access r = \<lparr>value = JUndefined, isDefault = True\<rparr>)) \<and>
   (newURL env (JString REGISTRY_NPM) = Some u \<and> publishConfig unscoped = None \<and>
    scope unscoped = JUndefined \<longrightarrow>
      (\<exists>r. normalizeOptions env unscoped abcOptions = Inr r \<and>
         NormalizedOptions.access r = \<lparr>value = JString ACCESS_PUBLIC, isDefault = True\<rparr>))"
proof (intro conjI impI)
  assume a: "\<not> Boolean (forceCommandLineOptions options) \<and> Options.access options = JUndefined \<and>
    (optionalChain (publishConfig manifest) PackagePublishConfig.access = JUndefined \<or>
     optionalChain (publishConfig manifest) PackagePublishConfig.access = JNull) \<and>
    normalizeOptions env manifest options = Inr r"
  then have da: "defaultAccess (resolveDefaults manifest options) =
      (if scope manifest = JUndefined then JString ACCESS_PUBLIC else JUndefined)"
    by (auto simp: resolveDefaults_def initialDefaults_def nullish_def Let_def)
  from a have ok: "normalizeOptions env manifest options = Inr r" by simp
  from a da normalizeOptions_Inr(4) [OF ok] show "NormalizedOptions.access r =
        \<lparr>value = (if scope manifest = JUndefined then JString ACCESS_PUBLIC else JUndefined),
         isDefault = True\<rparr>"
    by (auto simp: setValue_Inr_iff nullish_def validateAccess_def split: if_splits)
next
  assume "newURL env (JString REGISTRY_NPM) = Some u \<and> publishConfig scoped = None \<and>
    scope scoped \<noteq> JUndefined"
  then show "\<exists>r. normalizeOptions env scoped abcOptions = Inr r \<and>
         NormalizedOptions.access r = \<lparr>value = JUndefined, isDefault = True\<rparr>"
    by (simp add: normalizeOptions_def resolveDefaults_def initialDefaults_def setValue_def
          orThrow_def nullish_def optionalChain_def noOptions_def abcOptions_def
          validator_defs string_defs)
next
  assume "newURL env (JString REGISTRY_NPM) = Some u \<and> publishConfig unscoped = None \<and>
    scope unscoped = JUndefined"
  then show "\<exists>r. normalizeOptions env unscoped abcOptions = Inr r \<and>
         NormalizedOptions.access r = \<lparr>value = JString ACCESS_PUBLIC, isDefault = True\<rparr>"
    by (simp add: normalizeOptions_def resolveDefaults_def initialDefaults_def setValue_def
          orThrow_def nullish_def optionalChain_def noOptions_def abcOptions_def
          validator_defs string_defs)
qed


theorem access_default_by_scope_witness:
  "\<not> Boolean (forceCommandLineOptions abcOptions) \<and> Options.access abcOptions = JUndefined \<and>
   optionalChain (publishConfig acmeManifest) PackagePublishConfig.access = JUndefined \<and>
   newURL examplePlatform (JString REGISTRY_NPM) = Some REGISTRY_NPM \<and>
   publishConfig acmeManifest = None \<and> scope acmeManifest \<noteq> JUndefined \<and>
   publishConfig noManifest = None \<and> scope noManifest = JUndefined \<and>
   (\<exists>r. normalizeOptions examplePlatform acmeManifest abcOptions = Inr r \<and>
      NormalizedOptions.access r = \<lparr>value = JUndefined, isDefault = True\<rparr>) \<and>
   (\<exists>r. normalizeOptions examplePlatform noManifest abcOptions = Inr r \<and>
      NormalizedOptions.access r =
        \<lparr>value = JString (ascii ''public''), isDefault = True\<rparr>)"
proof -
  have h: "newURL examplePlatform (JString REGISTRY_NPM) = Some REGISTRY_NPM"
    "publishConfig acmeManifest = None" "scope acmeManifest \<noteq> JUndefined"
    "publishConfig noManifest = None" "scope noManifest = JUndefined"
    "\<not> Boolean (forceCommandLineOptions abcOptions)" "Options.access abcOptions = JUndefined"
    "optionalChain (publishConfig acmeManifest) PackagePublishConfig.access = JUndefined"
    by (simp_all add: examplePlatform_def acmeManifest_def noManifest_def abcOptions_def
          noOptions_def Boolean_def optionalChain_def string_defs)
  from h access_default_by_scope
    [of abcOptions acmeManifest examplePlatform _ REGISTRY_NPM acmeManifest noManifest]
  show ?thesis by (simp add: ACCESS_PUBLIC_def)
qed

text \<open>
  C6, as the specification words it, gives \<open>access.value\<close> \<^verbatim>\<open>undefined\<close> to every
  manifest with a scope. The line
  \<^verbatim>\<open>defaultAccess = manifest.publishConfig?.access ?? defaultAccess\<close> puts the manifest's
  own \<open>publishConfig.access\<close> first: the manifest
  \<^verbatim>\<open>{scope: "@acme", publishConfig: {access: "public"}}\<close> with \<^verbatim>\<open>{token: "abc"}\<close> returns
  \<open>access.value\<close> \<^verbatim>\<open>"public"\<close>.
\<close>

theorem access_default_by_scope_counterexample:
  "scope acmePublicManifest = JString (ascii ''@acme'') \<and>
   forceCommandLineOptions abcOptions = JUndefined \<and>
   Options.access abcOptions = JUndefined \<and>
   normalizeOptions examplePlatform acmePublicManifest abcOptions =
     Inr \<lparr>registry = ascii ''https://registry.npmjs.org/'', token = ascii ''abc'',
          tag = \<lparr>value = ascii ''latest'', isDefault = True\<rparr>,
          access = \<lparr>value = JString (ascii ''public''), isDefault = True\<rparr>,
          provenance = \<lparr>value = False, isDefault = True\<rparr>,
          ignoreScripts = \<lparr>value = True, isDefault = True\<rparr>,
          dryRun = \<lparr>value = False, isDefault = True\<rparr>,
          strategy = \<lparr>value = JString (ascii ''all''), isDefault = True\<rparr>,
          logger = JUndefined, temporaryDirectory = JString (ascii ''/tmp'')\<rparr> \<and>
   JString (ascii ''public'') \<noteq> JUndefined"
  using acme_public_call
  by (simp add: acmePublicManifest_def abcOptions_def noOptions_def string_defs)

text \<open>
  C7. The token validator returns every non-empty string unchanged, and signals
  \<open>InvalidTokenError\<close> on the empty string and on every value that is not a string.
\<close>

theorem validateToken_spec:
  "(s \<noteq> [] \<longrightarrow> validateToken (JString s) = Inr s) \<and>
   validateToken (JString []) = Inl InvalidTokenError \<and>
   ((\<forall>t. v \<noteq> JString t) \<longrightarrow> validateToken v = Inl InvalidTokenError)"
  by (cases v) (simp_all add: validateToken_def)

theorem validateToken_spec_witness:
  "ascii ''abc'' \<noteq> [] \<and> validateToken (JString (ascii ''abc'')) = Inr (ascii ''abc'') \<and>
   validateToken (JString []) = Inl InvalidTokenError \<and>
   (\<forall>t. JNumber 0x3FF0000000000000 \<noteq> JString t) \<and>
   validateToken (JNumber 0x3FF0000000000000) = Inl InvalidTokenError"
  using validateToken_spec [of "ascii ''abc''" "JNumber 0x3FF0000000000000"]
  by (simp add: ascii_def)

text \<open>
  C8. Tag validation is idempotent on what it accepts: when \<open>validateTag x\<close> returns,
  validating the returned string returns the same result as \<open>validateTag x\<close>.
\<close>

theorem validateTag_idempotent:
  "validateTag x = Inr y \<Longrightarrow>
     orThrow (validateTag x) (\<lambda>t. validateTag (JString t)) = validateTag x"
proof -
  assume ok: "validateTag x = Inr y"
  then have "x = JString y" by (rule validateTag_Inr)
  with ok show ?thesis by (simp add: orThrow_def)
qed

theorem validateTag_idempotent_witness:
  "validateTag (JString (ascii ''beta '')) = Inr (ascii ''beta '') \<and>
   orThrow (validateTag (JString (ascii ''beta ''))) (\<lambda>t. validateTag (JString t)) =
     validateTag (JString (ascii ''beta ''))"
  using validateTag_idempotent [OF validateTag_beta] validateTag_beta by simp

text \<open>
  C9. A raw value \<^verbatim>\<open>null\<close> is replaced by the default before validation, and the flag
  \<open>isDefault\<close> is false: \<open>setValue\<close> on \<^verbatim>\<open>null\<close> validates the default and wraps the
  result with \<open>isDefault = False\<close>, and in a returned record each of the six tracked
  fields whose option was \<^verbatim>\<open>null\<close> holds the validated default with the flag false.
\<close>

theorem null_takes_default_not_isDefault:
  assumes "normalizeOptions env manifest options = Inr r"
  shows "setValue JNull dv validate =
      orThrow (validate dv) (\<lambda>x. Inr \<lparr>value = x, isDefault = False\<rparr>) \<and>
    (Options.tag options = JNull \<longrightarrow>
       validateTag (defaultTag (resolveDefaults manifest options)) =
         Inr (value (NormalizedOptions.tag r)) \<and>
       \<not> isDefault (NormalizedOptions.tag r)) \<and>
    (Options.access options = JNull \<longrightarrow>
       validateAccess (defaultAccess (resolveDefaults manifest options)) =
         Inr (value (NormalizedOptions.access r)) \<and>
       \<not> isDefault (NormalizedOptions.access r)) \<and>
    (Options.provenance options = JNull \<longrightarrow>
       NormalizedOptions.provenance r =
         \<lparr>value = Boolean (defaultProvenance (resolveDefaults manifest options)),
          isDefault = False\<rparr>) \<and>
    (Options.ignoreScripts options = JNull \<longrightarrow>
       NormalizedOptions.ignoreScripts r = \<lparr>value = True, isDefault = False\<rparr>) \<and>
    (Options.dryRun options = JNull \<longrightarrow>
       NormalizedOptions.dryRun r = \<lparr>value = False, isDefault = False\<rparr>) \<and>
    (Options.strategy options = JNull \<longrightarrow>
       NormalizedOptions.strategy r = \<lparr>value = JString STRATEGY_ALL, isDefault = False\<rparr>)"
proof -
  note ok = normalizeOptions_Inr [OF assms]
  have sv: "setValue JNull dv validate =
      orThrow (validate dv) (\<lambda>x. Inr \<lparr>value = x, isDefault = False\<rparr>)"
    by (cases "validate dv") (simp_all add: setValue_def orThrow_def nullish_def)
  have tg: "Options.tag options = JNull \<longrightarrow>
       validateTag (defaultTag (resolveDefaults manifest options)) =
         Inr (value (NormalizedOptions.tag r)) \<and>
       \<not> isDefault (NormalizedOptions.tag r)"
    using ok(3) by (clarsimp simp: setValue_Inr_iff nullish_def)
  have ac: "Options.access options = JNull \<longrightarrow>
       validateAccess (defaultAccess (resolveDefaults manifest options)) =
         Inr (value (NormalizedOptions.access r)) \<and>
       \<not> isDefault (NormalizedOptions.access r)"
    using ok(4) by (clarsimp simp: setValue_Inr_iff nullish_def)
  have pr: "Options.provenance options = JNull \<longrightarrow>
       NormalizedOptions.provenance r =
         \<lparr>value = Boolean (defaultProvenance (resolveDefaults manifest options)),
          isDefault = False\<rparr>"
    using ok(5) by (clarsimp simp: setValue_Inr_iff nullish_def validateBoolean_def)
  have ig: "Options.ignoreScripts options = JNull \<longrightarrow>
       NormalizedOptions.ignoreScripts r = \<lparr>value = True, isDefault = False\<rparr>"
    using ok(6) by (clarsimp simp: setValue_Inr_iff nullish_def validateBoolean_def Boolean_def)
  have dr: "Options.dryRun options = JNull \<longrightarrow>
       NormalizedOptions.dryRun r = \<lparr>value = False, isDefault = False\<rparr>"
    using ok(7) by (clarsimp simp: setValue_Inr_iff nullish_def validateBoolean_def Boolean_def)
  have st: "Options.strategy options = JNull \<longrightarrow>
       NormalizedOptions.strategy r = \<lparr>value = JString STRATEGY_ALL, isDefault = False\<rparr>"
    using ok(8) by (clarsimp simp: setValue_Inr_iff nullish_def validateStrategy_def)
  from sv tg ac pr ig dr st show ?thesis by (intro conjI)
qed

theorem null_takes_default_not_isDefault_witness:
  "\<exists>r. normalizeOptions examplePlatform noManifest nullOptions = Inr r \<and>
      Options.tag nullOptions = JNull \<and>
      NormalizedOptions.tag r = \<lparr>value = TAG_LATEST, isDefault = False\<rparr> \<and>
      Options.access nullOptions = JNull \<and>
      NormalizedOptions.access r = \<lparr>value = JString ACCESS_PUBLIC, isDefault = False\<rparr> \<and>
      Options.provenance nullOptions = JNull \<and>
      NormalizedOptions.provenance r = \<lparr>value = False, isDefault = False\<rparr> \<and>
      Options.ignoreScripts nullOptions = JNull \<and>
      NormalizedOptions.ignoreScripts r = \<lparr>value = True, isDefault = False\<rparr> \<and>
      Options.dryRun nullOptions = JNull \<and>
      NormalizedOptions.dryRun r = \<lparr>value = False, isDefault = False\<rparr> \<and>
      Options.strategy nullOptions = JNull \<and>
      NormalizedOptions.strategy r = \<lparr>value = JString STRATEGY_ALL, isDefault = False\<rparr>"
  using null_takes_default_not_isDefault [OF null_call] null_call
  by (simp add: nullOptions_def abcOptions_def noOptions_def)

text \<open>
  C10. In a returned record, for any manifest: where \<open>ignoreScripts\<close>, \<open>dryRun\<close> or
  \<open>strategy\<close> of the options is \<^verbatim>\<open>undefined\<close>, the field is \<open>true\<close>, \<open>false\<close> or
  \<open>STRATEGY_ALL\<close> (\<^verbatim>\<open>"all"\<close>), with \<open>isDefault\<close> true.
\<close>

theorem fixed_defaults:
  assumes "normalizeOptions env manifest options = Inr r"
  shows "(Options.ignoreScripts options = JUndefined \<longrightarrow>
       NormalizedOptions.ignoreScripts r = \<lparr>value = True, isDefault = True\<rparr>) \<and>
    (Options.dryRun options = JUndefined \<longrightarrow>
       NormalizedOptions.dryRun r = \<lparr>value = False, isDefault = True\<rparr>) \<and>
    (Options.strategy options = JUndefined \<longrightarrow>
       NormalizedOptions.strategy r = \<lparr>value = JString STRATEGY_ALL, isDefault = True\<rparr>)"
  using normalizeOptions_Inr(6-8) [OF assms]
  by (auto simp: setValue_Inr_iff nullish_def validateBoolean_def Boolean_def
        validateStrategy_def)

theorem fixed_defaults_witness:
  "\<exists>r. normalizeOptions examplePlatform noManifest abcOptions = Inr r \<and>
      Options.ignoreScripts abcOptions = JUndefined \<and>
      NormalizedOptions.ignoreScripts r = \<lparr>value = True, isDefault = True\<rparr> \<and>
      Options.dryRun abcOptions = JUndefined \<and>
      NormalizedOptions.dryRun r = \<lparr>value = False, isDefault = True\<rparr> \<and>
      Options.strategy abcOptions = JUndefined \<and>
      NormalizedOptions.strategy r =
        \<lparr>value = JString (ascii ''all''), isDefault = True\<rparr>"
  using fixed_defaults [OF abc_call] abc_call
  by (simp add: abcOptions_def noOptions_def STRATEGY_ALL_def)

end
